theory Spec2Isabelle
  imports Complex_Main
begin

section \<open>Hunt Map: the UI state of App, Sidebar and MapComponent\<close>

text \<open>
  The application is three React components. \<open>App\<close> owns the basemap style, the
  eleven layer-visibility flags and the NAIP year; \<open>Sidebar\<close> shows the controls that
  change them; \<open>MapComponent\<close> owns the popup, the measurement tool and the style-loaded
  flag, and renders the overlays. Every \<open>useState\<close> cell is a field of one record, every
  event handler a function from state to state, and what a component renders a function
  of the state.

  JavaScript numbers are modelled as \<open>real\<close>: the handlers store and compare them, and
  the arithmetic of distances and of number formatting is left to the library functions
  (\<open>turf.length\<close>, \<open>Number.prototype.toFixed\<close>), which are parameters of the model.
\<close>

subsection \<open>Constants of App\<close>

definition STYLE_TERRAIN :: string where
  "STYLE_TERRAIN = ''mapbox://styles/mapbox/outdoors-v12''"

definition STYLE_SATELLITE :: string where
  "STYLE_SATELLITE = ''mapbox://styles/cjlinville/cmljzr1ps004l01sp15xj9941''"

subsection \<open>Data\<close>

text \<open>The type \<open>'miles' | 'yards'\<close> of \<open>measurementUnit\<close>.\<close>

datatype measurement_unit = Miles | Yards

text \<open>
  A property value of a map feature (\<open>any\<close> in the source): the map widget hands out
  null, booleans, numbers and strings. \<open>truthy\<close> is JavaScript's truthiness on them.
\<close>

datatype jsvalue = JNull | JBool bool | JNum real | JStr string

fun truthy :: "jsvalue \<Rightarrow> bool" where
  "truthy JNull = False"
| "truthy (JBool b) = b"
| "truthy (JNum n) = (n \<noteq> 0)"
| "truthy (JStr s) = (s \<noteq> [])"

text \<open>The truthiness of a value that may be null or undefined (\<open>None\<close>).\<close>

definition truthy_opt :: "jsvalue option \<Rightarrow> bool" where
  "truthy_opt x = (case x of None \<Rightarrow> False | Some v \<Rightarrow> truthy v)"

text \<open>\<open>x || null\<close>, where \<open>None\<close> stands for both \<open>undefined\<close> (a missing key) and \<open>null\<close>.\<close>

definition or_null :: "jsvalue option \<Rightarrow> jsvalue option" where
  "or_null x = (case x of None \<Rightarrow> None | Some v \<Rightarrow> (if truthy v then Some v else None))"

record lnglat =
  lng :: real
  lat :: real

text \<open>
  A clicked feature: \<open>feature.layer.id\<close> and \<open>feature.properties\<close>, an object, kept as
  its list of entries (\<open>Object.entries\<close>).
\<close>

record feature =
  layer_id :: string
  properties :: "(string \<times> jsvalue) list"

text \<open>A map click: \<open>event.features\<close> may be undefined; \<open>event.lngLat\<close> is always there.\<close>

record click_event =
  ev_features :: "feature list option"
  ev_lngLat :: lnglat

record popup_info =
  popup_feature :: feature
  popup_lngLat :: lnglat

record suitability_meta =
  bounds :: "real list list"
  url :: string

text \<open>
  The handle in \<open>styleLoadTimer.current\<close>: null, a pending timeout, or the stale handle
  that \<open>toggleMapStyle\<close> leaves behind when it clears the timeout without resetting
  the ref.
\<close>

datatype timer_ref = NoTimer | Scheduled | Cleared

datatype tab = Layers | About

text \<open>The three \<open>CollapsibleSection\<close>s of the Layers panel.\<close>

datatype section_id = RegulationAndLand | Access | Habitat

text \<open>The eleven overlays, one per visibility flag of \<open>App\<close>.\<close>

datatype overlay =
  LocalDistricts | NHD | MTRoads | Trails | PublicLands | NAIP | BHS
  | ElevationBands | SlopeMask | Parcels | HabitatSuitability

record state =
  \<comment> \<open>App\<close>
  mapStyle :: string
  showLocalDistricts :: bool
  showNHD :: bool
  showMTRoads :: bool
  showTrails :: bool
  showPublicLands :: bool
  showNAIP :: bool
  naipYear :: string
  showBHS :: bool
  showElevationBands :: bool
  showSlopeMask :: bool
  showParcels :: bool
  showHabitatSuitability :: bool
  isSidebarOpen :: bool
  \<comment> \<open>Sidebar and its collapsible sections\<close>
  activeTab :: tab
  openRegulationAndLand :: bool
  openAccess :: bool
  openHabitat :: bool
  \<comment> \<open>MapComponent\<close>
  cursorCoords :: "lnglat option"
  popupInfo :: "popup_info option"
  cursor :: string
  suitabilityMeta :: "suitability_meta option"
  selectedTrailName :: "jsvalue option"
  isMeasuring :: bool
  measurementPoints :: "real list list"
  measurementUnit :: measurement_unit
  isStyleLoaded :: bool
  styleLoadTimer :: timer_ref
  initialViewState :: "real \<times> real \<times> real"

text \<open>
  The initial values of the \<open>useState\<close> and \<open>useRef\<close> cells. A freshly mounted
  \<open>CollapsibleSection\<close> is open. The info panels of the sidebar (\<open>showInfoTab\<close>,
  \<open>isInfoExpanded\<close>) only show a layer's description and are left out.
\<close>

definition initial_state :: state where
  "initial_state = \<lparr>
     mapStyle = STYLE_TERRAIN,
     showLocalDistricts = True,
     showNHD = True,
     showMTRoads = True,
     showTrails = True,
     showPublicLands = True,
     showNAIP = False,
     naipYear = ''2023'',
     showBHS = False,
     showElevationBands = False,
     showSlopeMask = False,
     showParcels = False,
     showHabitatSuitability = False,
     isSidebarOpen = False,
     activeTab = Layers,
     openRegulationAndLand = True,
     openAccess = True,
     openHabitat = True,
     cursorCoords = None,
     popupInfo = None,
     cursor = ''auto'',
     suitabilityMeta = None,
     selectedTrailName = None,
     isMeasuring = False,
     measurementPoints = [],
     measurementUnit = Miles,
     isStyleLoaded = False,
     styleLoadTimer = NoTimer,
     initialViewState = (-114.85, 48.86, 11) \<rparr>"

subsection \<open>The visibility flags and their setters\<close>

text \<open>The flag \<open>showX\<close> of an overlay and its setter \<open>setShowX\<close>.\<close>

fun flag :: "state \<Rightarrow> overlay \<Rightarrow> bool" where
  "flag s LocalDistricts = showLocalDistricts s"
| "flag s NHD = showNHD s"
| "flag s MTRoads = showMTRoads s"
| "flag s Trails = showTrails s"
| "flag s PublicLands = showPublicLands s"
| "flag s NAIP = showNAIP s"
| "flag s BHS = showBHS s"
| "flag s ElevationBands = showElevationBands s"
| "flag s SlopeMask = showSlopeMask s"
| "flag s Parcels = showParcels s"
| "flag s HabitatSuitability = showHabitatSuitability s"

fun set_flag :: "overlay \<Rightarrow> bool \<Rightarrow> state \<Rightarrow> state" where
  "set_flag LocalDistricts b s = s\<lparr>showLocalDistricts := b\<rparr>"
| "set_flag NHD b s = s\<lparr>showNHD := b\<rparr>"
| "set_flag MTRoads b s = s\<lparr>showMTRoads := b\<rparr>"
| "set_flag Trails b s = s\<lparr>showTrails := b\<rparr>"
| "set_flag PublicLands b s = s\<lparr>showPublicLands := b\<rparr>"
| "set_flag NAIP b s = s\<lparr>showNAIP := b\<rparr>"
| "set_flag BHS b s = s\<lparr>showBHS := b\<rparr>"
| "set_flag ElevationBands b s = s\<lparr>showElevationBands := b\<rparr>"
| "set_flag SlopeMask b s = s\<lparr>showSlopeMask := b\<rparr>"
| "set_flag Parcels b s = s\<lparr>showParcels := b\<rparr>"
| "set_flag HabitatSuitability b s = s\<lparr>showHabitatSuitability := b\<rparr>"

subsection \<open>MapComponent: derived values\<close>

text \<open>
  \<open>totalDistance\<close>. The two library calls \<open>turf.lineString\<close> and \<open>turf.length\<close> are
  the parameters \<open>lineString\<close> and \<open>turf_length\<close>.
\<close>

definition totalDistance ::
  "(real list list \<Rightarrow> 'line) \<Rightarrow> ('line \<Rightarrow> measurement_unit \<Rightarrow> real) \<Rightarrow> state \<Rightarrow> real" where
  "totalDistance lineString turf_length s =
     (if length (measurementPoints s) < 2 then 0
      else turf_length (lineString (measurementPoints s)) (measurementUnit s))"

text \<open>
  The distance display: absent unless there is a measurement point; otherwise the
  formatted number (\<open>toFixed\<close> is a parameter, its second argument the number of
  decimals) and the unit suffix.
\<close>

definition distance_display ::
  "(real list list \<Rightarrow> 'line) \<Rightarrow> ('line \<Rightarrow> measurement_unit \<Rightarrow> real) \<Rightarrow> (real \<Rightarrow> nat \<Rightarrow> string)
     \<Rightarrow> state \<Rightarrow> (string \<times> string) option" where
  "distance_display lineString turf_length toFixed s =
     (if length (measurementPoints s) > 0
      then Some (toFixed (totalDistance lineString turf_length s)
                   (if measurementUnit s = Miles then 2 else 0),
                 if measurementUnit s = Miles then ''mi'' else ''yd'')
      else None)"

text \<open>\<open>interactiveLayerIds\<close>: the pushes in source order.\<close>

definition interactiveLayerIds :: "state \<Rightarrow> string list" where
  "interactiveLayerIds s =
     (if showElevationBands s then [''elevation-bands''] else []) @
     (if showSlopeMask s then [''slope-mask''] else []) @
     (if showPublicLands s then [''public-lands''] else []) @
     (if showParcels s then [''parcels-labels''] else []) @
     (if showBHS s then [''bhs-distribution''] else []) @
     (if showMTRoads s then [''mt-roads-hit''] else []) @
     (if showNHD s then [''nhd-waterbody-fill'', ''nhd-flowline-hit''] else []) @
     (if showTrails s then [''fs-trails-hit''] else []) @
     (if showLocalDistricts s then [''hunting-district-hit''] else []) @
     (if showHabitatSuitability s then [''habitat-suitability''] else [])"

text \<open>
  The \<open>Source\<close> elements inside \<open><Map>\<close>, in source order, each with the ids of its
  \<open>Layer\<close> children. \<open>selectedTrailName && ...\<close> tests the truthiness of the stored name.
\<close>

definition map_children :: "state \<Rightarrow> (string \<times> string list) list" where
  "map_children s =
     (if isStyleLoaded s then
        (if length (measurementPoints s) > 0
         then [(''measurement'', [''measurement-line'', ''measurement-points''])] else []) @
        (if showNAIP s
         then [(''naip-'' @ naipYear s, [''naip-layer-'' @ naipYear s])] else []) @
        (if showElevationBands s
         then [(''elevation-bands'', [''elevation-bands''])] else []) @
        (if showSlopeMask s
         then [(''slope-mask'', [''slope-mask''])] else []) @
        (if showHabitatSuitability s \<and> suitabilityMeta s \<noteq> None
         then [(''habitat-suitability'', [''habitat-suitability''])] else []) @
        (if showPublicLands s
         then [(''public-lands'', [''public-lands''])] else []) @
        (if showParcels s
         then [(''parcels'', [''parcels'', ''parcels-labels''])] else []) @
        (if showBHS s
         then [(''bhs-distribution'', [''bhs-distribution''])] else []) @
        (if showMTRoads s
         then [(''mt-roads'', [''mt-roads'', ''mt-roads-label'', ''mt-roads-hit''])] else []) @
        (if showNHD s
         then [(''nhd-waterbodies'', [''nhd-waterbody-fill'', ''nhd-waterbody-outline'']),
               (''nhd-flowlines'', [''nhd-flowline'', ''nhd-flowline-label'', ''nhd-flowline-hit''])]
         else []) @
        (if showTrails s
         then [(''fs-trails'',
                (if truthy_opt (selectedTrailName s) then [''fs-trails-halo''] else []) @
                [''fs-trails'', ''fs-trails-label'', ''fs-trails-hit''])]
         else []) @
        (if showLocalDistricts s
         then [(''hunting-district'',
                [''hunting-district-line'', ''hunting-district-label'', ''hunting-district-hit''])]
         else [])
      else [])"

definition rendered_sources :: "state \<Rightarrow> string list" where
  "rendered_sources s = map fst (map_children s)"

definition rendered_layers :: "state \<Rightarrow> string list" where
  "rendered_layers s = concat (map snd (map_children s))"

text \<open>
  The popup: rendered when \<open>popupInfo\<close> is not null, with one table row per entry of
  the feature's properties, the value shown through \<open>String(value)\<close> (the parameter
  \<open>js_String\<close>).
\<close>

definition popup_rows :: "(jsvalue \<Rightarrow> string) \<Rightarrow> state \<Rightarrow> (string \<times> string) list option" where
  "popup_rows js_String s =
     (case popupInfo s of
        None \<Rightarrow> None
      | Some p \<Rightarrow> Some (map (\<lambda>(key, v). (key, js_String v)) (properties (popup_feature p))))"

subsection \<open>MapComponent: event handlers\<close>

definition toggleMapStyle :: "state \<Rightarrow> state" where
  "toggleMapStyle s =
     s\<lparr>styleLoadTimer := (if styleLoadTimer s = Scheduled then Cleared else styleLoadTimer s),
       isStyleLoaded := False,
       mapStyle := (if mapStyle s = STYLE_TERRAIN then STYLE_SATELLITE else STYLE_TERRAIN)\<rparr>"

text \<open>\<open>event.features && event.features[0]\<close>.\<close>

definition first_feature :: "click_event \<Rightarrow> feature option" where
  "first_feature event =
     (case ev_features event of None \<Rightarrow> None | Some [] \<Rightarrow> None | Some (f # _) \<Rightarrow> Some f)"

definition onClick :: "click_event \<Rightarrow> state \<Rightarrow> state" where
  "onClick event s =
     (if isMeasuring s then
        s\<lparr>measurementPoints :=
            measurementPoints s @ [[lng (ev_lngLat event), lat (ev_lngLat event)]]\<rparr>
      else
        (case first_feature event of
           Some f \<Rightarrow>
             (if layer_id f = ''fs-trails-hit''
              then s\<lparr>popupInfo := Some \<lparr>popup_feature = f, popup_lngLat = ev_lngLat event\<rparr>,
                     selectedTrailName := or_null (map_of (properties f) ''Name'')\<rparr>
              else s\<lparr>popupInfo := Some \<lparr>popup_feature = f, popup_lngLat = ev_lngLat event\<rparr>\<rparr>)
         | None \<Rightarrow> s\<lparr>popupInfo := None, selectedTrailName := None\<rparr>))"

definition onMouseMove :: "lnglat \<Rightarrow> state \<Rightarrow> state" where
  "onMouseMove p s = s\<lparr>cursorCoords := Some p\<rparr>"

definition onMouseEnter :: "state \<Rightarrow> state" where
  "onMouseEnter s = s\<lparr>cursor := ''pointer''\<rparr>"

definition onMouseLeave :: "state \<Rightarrow> state" where
  "onMouseLeave s = s\<lparr>cursor := ''auto''\<rparr>"

definition onLoad :: "state \<Rightarrow> state" where
  "onLoad s = s\<lparr>isStyleLoaded := True\<rparr>"

text \<open>\<open>onStyleData\<close> schedules the 500 ms timeout; \<open>styleLoadTimeout\<close> is its callback,
  given what \<open>map.isStyleLoaded()\<close> returns then.\<close>

definition onStyleData :: "string \<Rightarrow> state \<Rightarrow> state" where
  "onStyleData dataType s =
     (if dataType = ''style'' \<and> styleLoadTimer s = NoTimer \<and> \<not> isStyleLoaded s
      then s\<lparr>styleLoadTimer := Scheduled\<rparr> else s)"

definition styleLoadTimeout :: "bool \<Rightarrow> state \<Rightarrow> state" where
  "styleLoadTimeout map_isStyleLoaded s =
     (if map_isStyleLoaded then s\<lparr>isStyleLoaded := True, styleLoadTimer := NoTimer\<rparr>
      else s\<lparr>styleLoadTimer := NoTimer\<rparr>)"

text \<open>The two fetches of the mount effects: the hunting district's bounding box
  (\<open>None\<close> when the file has no feature) and the suitability metadata.\<close>

definition districtFetched :: "(real \<times> real \<times> real \<times> real) option \<Rightarrow> state \<Rightarrow> state" where
  "districtFetched bbox s =
     (case bbox of
        None \<Rightarrow> s
      | Some (minLng, minLat, maxLng, maxLat) \<Rightarrow>
          s\<lparr>initialViewState := ((minLng + maxLng) / 2, (minLat + maxLat) / 2, 11)\<rparr>)"

definition suitabilityFetched :: "suitability_meta option \<Rightarrow> state \<Rightarrow> state" where
  "suitabilityFetched data s = s\<lparr>suitabilityMeta := data\<rparr>"

text \<open>The popup's \<open>onClose\<close> and its close button.\<close>

definition popupClose :: "state \<Rightarrow> state" where
  "popupClose s = s\<lparr>popupInfo := None\<rparr>"

text \<open>The click on the distance display: \<open>prev === 'miles' ? 'yards' : 'miles'\<close>.\<close>

definition toggleUnit :: "state \<Rightarrow> state" where
  "toggleUnit s = s\<lparr>measurementUnit := (if measurementUnit s = Miles then Yards else Miles)\<rparr>"

text \<open>The Clear button; it stops the propagation of the click, so the unit toggle of
  the enclosing display does not run.\<close>

definition clearMeasurements :: "state \<Rightarrow> state" where
  "clearMeasurements s = s\<lparr>measurementPoints := []\<rparr>"

text \<open>The Measure button.\<close>

definition measureClick :: "state \<Rightarrow> state" where
  "measureClick s =
     (if \<not> isMeasuring s then s\<lparr>isMeasuring := \<not> isMeasuring s, popupInfo := None\<rparr>
      else s\<lparr>isMeasuring := \<not> isMeasuring s\<rparr>)"

subsection \<open>Sidebar\<close>

text \<open>
  The \<open>LayerToggle\<close> elements in source order: the section, the label, and the
  flag whose value and setter \<open>App\<close> passes to it. The ninth label ends in the degree
  sign, written here as its two UTF-8 bytes.
\<close>

definition layer_toggles :: "(section_id \<times> string \<times> overlay) list" where
  "layer_toggles =
     [(RegulationAndLand, ''Hunting Districts'', LocalDistricts),
      (RegulationAndLand, ''Public Lands'', PublicLands),
      (RegulationAndLand, ''MT Parcels'', Parcels),
      (Access, ''MT Highway/Roads'', MTRoads),
      (Access, ''Forest Service Trails'', Trails),
      (Habitat, ''NHD Hydrography'', NHD),
      (Habitat, ''Bighorn Sheep Distribution'', BHS),
      (Habitat, ''Elevation Bands'', ElevationBands),
      (Habitat, ''Steep Slope (>45'' @ [CHR 0xC2, CHR 0xB0] @ '')'', SlopeMask),
      (Habitat, ''Habitat Suitability Index'', HabitatSuitability)]"

text \<open>The options of the NAIP year \<open>select\<close>.\<close>

definition naip_years :: "string list" where
  "naip_years = [''2023'', ''2021'', ''2019'', ''2017'', ''2015'', ''2013'', ''2011'', ''2009'', ''2005'']"

fun section_open :: "state \<Rightarrow> section_id \<Rightarrow> bool" where
  "section_open s RegulationAndLand = openRegulationAndLand s"
| "section_open s Access = openAccess s"
| "section_open s Habitat = openHabitat s"

text \<open>
  The controls the sidebar renders that change a layer: the checkbox of each
  \<open>LayerToggle\<close> in an open section, the NAIP checkbox, and the year \<open>select\<close> when
  NAIP is shown; none of them while the About tab is active.
\<close>

datatype control = LayerCheckbox overlay | YearSelect

definition sidebar_controls :: "state \<Rightarrow> control list" where
  "sidebar_controls s =
     (if activeTab s = Layers then
        map (\<lambda>(sec, label, ov). LayerCheckbox ov)
          (filter (\<lambda>(sec, label, ov). section_open s sec) layer_toggles) @
        [LayerCheckbox NAIP] @
        (if showNAIP s then [YearSelect] else [])
      else [])"

text \<open>
  Leaving the Layers tab unmounts the three sections, whose \<open>isOpen\<close> state is lost;
  they are open again when the tab comes back.
\<close>

definition setActiveTab :: "tab \<Rightarrow> state \<Rightarrow> state" where
  "setActiveTab t s =
     (if t = activeTab s then s
      else s\<lparr>activeTab := t, openRegulationAndLand := True, openAccess := True,
             openHabitat := True\<rparr>)"

fun sectionClick :: "section_id \<Rightarrow> state \<Rightarrow> state" where
  "sectionClick RegulationAndLand s = s\<lparr>openRegulationAndLand := \<not> openRegulationAndLand s\<rparr>"
| "sectionClick Access s = s\<lparr>openAccess := \<not> openAccess s\<rparr>"
| "sectionClick Habitat s = s\<lparr>openHabitat := \<not> openHabitat s\<rparr>"

definition setNaipYear :: "string \<Rightarrow> state \<Rightarrow> state" where
  "setNaipYear year s = s\<lparr>naipYear := year\<rparr>"

definition setIsSidebarOpen :: "bool \<Rightarrow> state \<Rightarrow> state" where
  "setIsSidebarOpen b s = s\<lparr>isSidebarOpen := b\<rparr>"

subsection \<open>The transition system\<close>

text \<open>
  One event per handler of the three components. \<open>LayerChange ov b\<close> is the change event
  of a checkbox with \<open>e.target.checked = b\<close>, \<open>YearChange y\<close> that of the \<open>select\<close> with
  \<open>e.target.value = y\<close>.
\<close>

datatype event =
    MapClick click_event
  | MapMouseMove lnglat
  | MapMouseEnter
  | MapMouseLeave
  | MapLoad
  | MapStyleData string
  | StyleTimeout bool
  | DistrictFetched "(real \<times> real \<times> real \<times> real) option"
  | SuitabilityFetched "suitability_meta option"
  | PopupClose
  | DistanceClick
  | ClearClick
  | MeasureClick
  | BasemapClick
  | LayerChange overlay bool
  | YearChange string
  | TabClick tab
  | SectionClick section_id
  | MenuClick
  | SidebarClose

fun fire :: "event \<Rightarrow> state \<Rightarrow> state" where
  "fire (MapClick ev) s = onClick ev s"
| "fire (MapMouseMove p) s = onMouseMove p s"
| "fire MapMouseEnter s = onMouseEnter s"
| "fire MapMouseLeave s = onMouseLeave s"
| "fire MapLoad s = onLoad s"
| "fire (MapStyleData dt) s = onStyleData dt s"
| "fire (StyleTimeout b) s = styleLoadTimeout b s"
| "fire (DistrictFetched bbox) s = districtFetched bbox s"
| "fire (SuitabilityFetched data) s = suitabilityFetched data s"
| "fire PopupClose s = popupClose s"
| "fire DistanceClick s = toggleUnit s"
| "fire ClearClick s = clearMeasurements s"
| "fire MeasureClick s = measureClick s"
| "fire BasemapClick s = toggleMapStyle s"
| "fire (LayerChange ov b) s = set_flag ov b s"
| "fire (YearChange y) s = setNaipYear y s"
| "fire (TabClick t) s = setActiveTab t s"
| "fire (SectionClick sec) s = sectionClick sec s"
| "fire MenuClick s = setIsSidebarOpen True s"
| "fire SidebarClose s = setIsSidebarOpen False s"

text \<open>
  An event can happen only when the element carrying its handler is rendered: the popup,
  the distance display with its Clear button, a sidebar control. A \<open>select\<close> reports one
  of its options. The timeout callback runs only while the timeout is pending.
\<close>

fun enabled :: "event \<Rightarrow> state \<Rightarrow> bool" where
  "enabled PopupClose s = (popupInfo s \<noteq> None)"
| "enabled DistanceClick s = (length (measurementPoints s) > 0)"
| "enabled ClearClick s = (length (measurementPoints s) > 0)"
| "enabled (StyleTimeout b) s = (styleLoadTimer s = Scheduled)"
| "enabled (LayerChange ov b) s = (LayerCheckbox ov \<in> set (sidebar_controls s))"
| "enabled (YearChange y) s = (YearSelect \<in> set (sidebar_controls s) \<and> y \<in> set naip_years)"
| "enabled (SectionClick sec) s = (activeTab s = Layers)"
| "enabled e s = True"

inductive reachable :: "state \<Rightarrow> bool" where
  init: "reachable initial_state"
| step: "reachable s \<Longrightarrow> enabled e s \<Longrightarrow> reachable (fire e s)"

subsection \<open>The overlays in the map\<close>

text \<open>
  What belongs to each overlay in \<open>MapComponent\<close>: the ids of the \<open>Source\<close> elements in
  the block its flag guards, the ids of the constant \<open>Layer\<close>s inside them (the trail
  halo, which depends on the selected trail, is not among them), and the ids it pushes
  to \<open>interactiveLayerIds\<close>.
\<close>

fun overlay_sources :: "state \<Rightarrow> overlay \<Rightarrow> string list" where
  "overlay_sources s NAIP = [''naip-'' @ naipYear s]"
| "overlay_sources s ElevationBands = [''elevation-bands'']"
| "overlay_sources s SlopeMask = [''slope-mask'']"
| "overlay_sources s HabitatSuitability = [''habitat-suitability'']"
| "overlay_sources s PublicLands = [''public-lands'']"
| "overlay_sources s Parcels = [''parcels'']"
| "overlay_sources s BHS = [''bhs-distribution'']"
| "overlay_sources s MTRoads = [''mt-roads'']"
| "overlay_sources s NHD = [''nhd-waterbodies'', ''nhd-flowlines'']"
| "overlay_sources s Trails = [''fs-trails'']"
| "overlay_sources s LocalDistricts = [''hunting-district'']"

fun overlay_sublayers :: "state \<Rightarrow> overlay \<Rightarrow> string list" where
  "overlay_sublayers s NAIP = [''naip-layer-'' @ naipYear s]"
| "overlay_sublayers s ElevationBands = [''elevation-bands'']"
| "overlay_sublayers s SlopeMask = [''slope-mask'']"
| "overlay_sublayers s HabitatSuitability = [''habitat-suitability'']"
| "overlay_sublayers s PublicLands = [''public-lands'']"
| "overlay_sublayers s Parcels = [''parcels'', ''parcels-labels'']"
| "overlay_sublayers s BHS = [''bhs-distribution'']"
| "overlay_sublayers s MTRoads = [''mt-roads'', ''mt-roads-label'', ''mt-roads-hit'']"
| "overlay_sublayers s NHD =
     [''nhd-waterbody-fill'', ''nhd-waterbody-outline'',
      ''nhd-flowline'', ''nhd-flowline-label'', ''nhd-flowline-hit'']"
| "overlay_sublayers s Trails = [''fs-trails'', ''fs-trails-label'', ''fs-trails-hit'']"
| "overlay_sublayers s LocalDistricts =
     [''hunting-district-line'', ''hunting-district-label'', ''hunting-district-hit'']"

fun overlay_hit_ids :: "overlay \<Rightarrow> string list" where
  "overlay_hit_ids NAIP = []"
| "overlay_hit_ids ElevationBands = [''elevation-bands'']"
| "overlay_hit_ids SlopeMask = [''slope-mask'']"
| "overlay_hit_ids HabitatSuitability = [''habitat-suitability'']"
| "overlay_hit_ids PublicLands = [''public-lands'']"
| "overlay_hit_ids Parcels = [''parcels-labels'']"
| "overlay_hit_ids BHS = [''bhs-distribution'']"
| "overlay_hit_ids MTRoads = [''mt-roads-hit'']"
| "overlay_hit_ids NHD = [''nhd-waterbody-fill'', ''nhd-flowline-hit'']"
| "overlay_hit_ids Trails = [''fs-trails-hit'']"
| "overlay_hit_ids LocalDistricts = [''hunting-district-hit'']"

text \<open>
  The condition under which the block of an overlay is rendered: the style is loaded and
  the flag is set; the habitat-suitability block also waits for the fetched metadata.
\<close>

definition render_guard :: "state \<Rightarrow> overlay \<Rightarrow> bool" where
  "render_guard s ov =
     (isStyleLoaded s \<and> flag s ov \<and> (ov = HabitatSuitability \<longrightarrow> suitabilityMeta s \<noteq> None))"

subsection \<open>The measuring invariant\<close>

definition measuring_inv :: "state \<Rightarrow> bool" where
  "measuring_inv s = (isMeasuring s \<longrightarrow> popupInfo s = None)"

section \<open>Frame lemmas: what each event changes\<close>

lemma styles_distinct: "STYLE_TERRAIN \<noteq> STYLE_SATELLITE"
  by (simp add: STYLE_TERRAIN_def STYLE_SATELLITE_def)

lemma flag_set_flag: "flag (set_flag ov b s) ov' = (if ov' = ov then b else flag s ov')"
  by (cases ov; cases ov') simp_all

lemma set_flag_frame:
  "mapStyle (set_flag ov b s) = mapStyle s"
  "naipYear (set_flag ov b s) = naipYear s"
  "popupInfo (set_flag ov b s) = popupInfo s"
  "isMeasuring (set_flag ov b s) = isMeasuring s"
  "measurementPoints (set_flag ov b s) = measurementPoints s"
  "measurementUnit (set_flag ov b s) = measurementUnit s"
  "isStyleLoaded (set_flag ov b s) = isStyleLoaded s"
  "suitabilityMeta (set_flag ov b s) = suitabilityMeta s"
  "selectedTrailName (set_flag ov b s) = selectedTrailName s"
  by (cases ov; simp)+

lemma sectionClick_frame:
  "mapStyle (sectionClick sec s) = mapStyle s"
  "naipYear (sectionClick sec s) = naipYear s"
  "popupInfo (sectionClick sec s) = popupInfo s"
  "isMeasuring (sectionClick sec s) = isMeasuring s"
  "measurementPoints (sectionClick sec s) = measurementPoints s"
  "flag (sectionClick sec s) ov = flag s ov"
  by (cases sec; cases ov; simp)+

lemmas handler_defs =
  onClick_def onMouseMove_def onMouseEnter_def onMouseLeave_def onLoad_def onStyleData_def
  styleLoadTimeout_def districtFetched_def suitabilityFetched_def popupClose_def
  toggleUnit_def clearMeasurements_def measureClick_def toggleMapStyle_def setNaipYear_def
  setActiveTab_def setIsSidebarOpen_def

lemma fire_mapStyle:
  "mapStyle (fire e s) =
     (if e = BasemapClick
      then (if mapStyle s = STYLE_TERRAIN then STYLE_SATELLITE else STYLE_TERRAIN)
      else mapStyle s)"
  by (cases e)
     (simp_all add: handler_defs set_flag_frame sectionClick_frame
        split: option.split list.split prod.split)

lemma fire_measurementPoints:
  "measurementPoints (fire e s) =
     (case e of
        ClearClick \<Rightarrow> []
      | MapClick ev \<Rightarrow>
          (if isMeasuring s
           then measurementPoints s @ [[lng (ev_lngLat ev), lat (ev_lngLat ev)]]
           else measurementPoints s)
      | _ \<Rightarrow> measurementPoints s)"
  by (cases e)
     (simp_all add: handler_defs set_flag_frame sectionClick_frame
        split: option.split list.split prod.split)

lemma fire_isMeasuring:
  "isMeasuring (fire e s) = (if e = MeasureClick then \<not> isMeasuring s else isMeasuring s)"
  by (cases e)
     (simp_all add: handler_defs set_flag_frame sectionClick_frame
        split: option.split list.split prod.split)

lemma fire_popupInfo:
  "popupInfo (fire e s) =
     (case e of
        MapClick ev \<Rightarrow>
          (if isMeasuring s then popupInfo s
           else (case first_feature ev of
                   Some f \<Rightarrow> Some \<lparr>popup_feature = f, popup_lngLat = ev_lngLat ev\<rparr>
                 | None \<Rightarrow> None))
      | PopupClose \<Rightarrow> None
      | MeasureClick \<Rightarrow> (if isMeasuring s then popupInfo s else None)
      | _ \<Rightarrow> popupInfo s)"
  by (cases e)
     (simp_all add: handler_defs set_flag_frame sectionClick_frame
        split: option.split list.split prod.split)

lemma fire_naipYear:
  "naipYear (fire e s) = (case e of YearChange y \<Rightarrow> y | _ \<Rightarrow> naipYear s)"
  by (cases e)
     (simp_all add: handler_defs set_flag_frame sectionClick_frame
        split: option.split list.split prod.split)

lemma fire_flag:
  "flag (fire e s) ov =
     (case e of LayerChange ov' b \<Rightarrow> (if ov = ov' then b else flag s ov) | _ \<Rightarrow> flag s ov)"
proof (cases e)
  case (LayerChange ov' b)
  then show ?thesis by (simp add: flag_set_flag)
next
  case (SectionClick sec)
  then show ?thesis by (simp add: sectionClick_frame)
qed (cases ov; simp add: handler_defs split: option.split list.split prod.split)+

lemma reachable_mapStyle:
  "reachable s \<Longrightarrow> mapStyle s = STYLE_TERRAIN \<or> mapStyle s = STYLE_SATELLITE"
  by (induction rule: reachable.induct) (auto simp: initial_state_def fire_mapStyle)

section \<open>Overlays: what is rendered and what is clickable\<close>

lemma in_set_if: "x \<in> set (if c then xs else []) \<longleftrightarrow> c \<and> x \<in> set xs"
  by simp

lemma map_if_nil: "map f (if c then xs else []) = (if c then map f xs else [])"
  by simp

lemma concat_if_nil: "concat (if c then xss else []) = (if c then concat xss else [])"
  by simp

lemma sources_iff:
  "sid \<in> set (overlay_sources s ov) \<Longrightarrow> sid \<in> set (rendered_sources s) \<longleftrightarrow> render_guard s ov"
  by (cases ov)
     (auto simp add: rendered_sources_def map_children_def render_guard_def
        in_set_if map_if_nil split del: if_split)

lemma hit_iff:
  "i \<in> set (overlay_hit_ids ov) \<Longrightarrow> i \<in> set (interactiveLayerIds s) \<longleftrightarrow> flag s ov"
  by (cases ov) (auto simp add: interactiveLayerIds_def in_set_if split del: if_split)

lemma sublayers_iff:
  "l \<in> set (overlay_sublayers s ov) \<Longrightarrow> l \<in> set (rendered_layers s) \<longleftrightarrow> render_guard s ov"
  by (cases ov)
     (auto simp add: rendered_layers_def map_children_def render_guard_def
        in_set_if map_if_nil concat_if_nil split del: if_split)

lemma halo_iff:
  "''fs-trails-halo'' \<in> set (rendered_layers s)
     \<longleftrightarrow> render_guard s Trails \<and> truthy_opt (selectedTrailName s)"
  by (auto simp add: rendered_layers_def map_children_def render_guard_def
        in_set_if map_if_nil concat_if_nil split del: if_split)

lemma interactive_cases:
  assumes "i \<in> set (interactiveLayerIds s)"
  shows "\<exists>ov. flag s ov \<and> i \<in> set (overlay_hit_ids ov)"
proof -
  from assms have
   "(flag s ElevationBands \<and> i \<in> set (overlay_hit_ids ElevationBands))
   \<or> (flag s SlopeMask \<and> i \<in> set (overlay_hit_ids SlopeMask))
   \<or> (flag s PublicLands \<and> i \<in> set (overlay_hit_ids PublicLands))
   \<or> (flag s Parcels \<and> i \<in> set (overlay_hit_ids Parcels))
   \<or> (flag s BHS \<and> i \<in> set (overlay_hit_ids BHS))
   \<or> (flag s MTRoads \<and> i \<in> set (overlay_hit_ids MTRoads))
   \<or> (flag s NHD \<and> i \<in> set (overlay_hit_ids NHD))
   \<or> (flag s Trails \<and> i \<in> set (overlay_hit_ids Trails))
   \<or> (flag s LocalDistricts \<and> i \<in> set (overlay_hit_ids LocalDistricts))
   \<or> (flag s HabitatSuitability \<and> i \<in> set (overlay_hit_ids HabitatSuitability))"
    by (simp only: interactiveLayerIds_def set_append Un_iff in_set_if flag.simps
          overlay_hit_ids.simps disj_assoc)
  then show ?thesis by blast
qed

lemma rendered_source_owner:
  assumes "sid \<in> set (rendered_sources s)"
  shows "sid = ''measurement'' \<or> (\<exists>ov. flag s ov \<and> sid \<in> set (overlay_sources s ov))"
proof -
  from assms have "isStyleLoaded s \<and>
     ((0 < length (measurementPoints s) \<and> sid \<in> set [''measurement''])
    \<or> (flag s NAIP \<and> sid \<in> set (overlay_sources s NAIP))
    \<or> (flag s ElevationBands \<and> sid \<in> set (overlay_sources s ElevationBands))
    \<or> (flag s SlopeMask \<and> sid \<in> set (overlay_sources s SlopeMask))
    \<or> ((flag s HabitatSuitability \<and> suitabilityMeta s \<noteq> None)
          \<and> sid \<in> set (overlay_sources s HabitatSuitability))
    \<or> (flag s PublicLands \<and> sid \<in> set (overlay_sources s PublicLands))
    \<or> (flag s Parcels \<and> sid \<in> set (overlay_sources s Parcels))
    \<or> (flag s BHS \<and> sid \<in> set (overlay_sources s BHS))
    \<or> (flag s MTRoads \<and> sid \<in> set (overlay_sources s MTRoads))
    \<or> (flag s NHD \<and> sid \<in> set (overlay_sources s NHD))
    \<or> (flag s Trails \<and> sid \<in> set (overlay_sources s Trails))
    \<or> (flag s LocalDistricts \<and> sid \<in> set (overlay_sources s LocalDistricts)))"
    by (simp only: rendered_sources_def map_children_def map_if_nil map_append in_set_if
          set_append Un_iff list.map fst_conv flag.simps overlay_sources.simps disj_assoc)
  then have "sid \<in> set [''measurement''] \<or> (\<exists>ov. flag s ov \<and> sid \<in> set (overlay_sources s ov))"
    by blast
  then show ?thesis by simp
qed

lemma interactive_set:
  "set (interactiveLayerIds s) = (\<Union>ov\<in>{ov. flag s ov}. set (overlay_hit_ids ov))"
proof (rule set_eqI)
  fix i
  show "i \<in> set (interactiveLayerIds s) \<longleftrightarrow> i \<in> (\<Union>ov\<in>{ov. flag s ov}. set (overlay_hit_ids ov))"
  proof
    assume "i \<in> set (interactiveLayerIds s)"
    from interactive_cases [OF this]
    show "i \<in> (\<Union>ov\<in>{ov. flag s ov}. set (overlay_hit_ids ov))" by blast
  next
    assume "i \<in> (\<Union>ov\<in>{ov. flag s ov}. set (overlay_hit_ids ov))"
    then obtain ov where "flag s ov" "i \<in> set (overlay_hit_ids ov)" by blast
    then show "i \<in> set (interactiveLayerIds s)" using hit_iff by blast
  qed
qed

lemma overlay_ids_set_flag:
  "overlay_sources (set_flag ov b s) ov' = overlay_sources s ov'"
  "overlay_sublayers (set_flag ov b s) ov' = overlay_sublayers s ov'"
  by (cases ov'; simp add: set_flag_frame)+

lemma render_guard_set_flag:
  "ov' \<noteq> ov \<Longrightarrow> render_guard (set_flag ov b s) ov' = render_guard s ov'"
  by (simp add: render_guard_def flag_set_flag set_flag_frame)

lemma sources_independent:
  assumes "ov' \<noteq> ov" "sid \<in> set (overlay_sources s ov')"
  shows "sid \<in> set (rendered_sources (set_flag ov b s)) \<longleftrightarrow> sid \<in> set (rendered_sources s)"
proof -
  have "sid \<in> set (overlay_sources (set_flag ov b s) ov')"
    using assms(2) by (simp only: overlay_ids_set_flag)
  then have "sid \<in> set (rendered_sources (set_flag ov b s)) \<longleftrightarrow> render_guard (set_flag ov b s) ov'"
    by (rule sources_iff)
  also have "\<dots> \<longleftrightarrow> render_guard s ov'"
    using assms(1) by (rule render_guard_set_flag)
  also have "\<dots> \<longleftrightarrow> sid \<in> set (rendered_sources s)"
    by (rule sources_iff [OF assms(2), symmetric])
  finally show ?thesis .
qed

lemma sublayers_independent:
  assumes "ov' \<noteq> ov" "l \<in> set (overlay_sublayers s ov')"
  shows "l \<in> set (rendered_layers (set_flag ov b s)) \<longleftrightarrow> l \<in> set (rendered_layers s)"
proof -
  have "l \<in> set (overlay_sublayers (set_flag ov b s) ov')"
    using assms(2) by (simp only: overlay_ids_set_flag)
  then have "l \<in> set (rendered_layers (set_flag ov b s)) \<longleftrightarrow> render_guard (set_flag ov b s) ov'"
    by (rule sublayers_iff)
  also have "\<dots> \<longleftrightarrow> render_guard s ov'"
    using assms(1) by (rule render_guard_set_flag)
  also have "\<dots> \<longleftrightarrow> l \<in> set (rendered_layers s)"
    by (rule sublayers_iff [OF assms(2), symmetric])
  finally show ?thesis .
qed

lemma hit_independent:
  assumes "ov' \<noteq> ov" "i \<in> set (overlay_hit_ids ov')"
  shows "i \<in> set (interactiveLayerIds (set_flag ov b s)) \<longleftrightarrow> i \<in> set (interactiveLayerIds s)"
proof -
  have "i \<in> set (interactiveLayerIds (set_flag ov b s)) \<longleftrightarrow> flag (set_flag ov b s) ov'"
    using assms(2) by (rule hit_iff)
  also have "\<dots> \<longleftrightarrow> flag s ov'"
    using assms(1) by (simp add: flag_set_flag)
  also have "\<dots> \<longleftrightarrow> i \<in> set (interactiveLayerIds s)"
    by (rule hit_iff [OF assms(2), symmetric])
  finally show ?thesis .
qed

lemma parcels_fill_not_interactive: "''parcels'' \<notin> set (interactiveLayerIds s)"
  by (simp add: interactiveLayerIds_def in_set_if split del: if_split)

lemma hit_ids_sublayers: "set (overlay_hit_ids ov) \<subseteq> set (overlay_sublayers s ov)"
  by (cases ov) simp_all

section \<open>Sidebar controls, the popup and the measurement points\<close>

lemma reachable_naipYear: "reachable s \<Longrightarrow> naipYear s \<in> set naip_years"
proof (induction rule: reachable.induct)
  case init
  show ?case by (simp add: initial_state_def naip_years_def)
next
  case (step s e)
  then show ?case by (cases e) (simp_all add: fire_naipYear del: fire.simps)
qed

lemma toggle_overlays: "map (\<lambda>(sec, label, ov). ov) layer_toggles @ [NAIP] =
     [LocalDistricts, PublicLands, Parcels, MTRoads, Trails, NHD, BHS, ElevationBands,
      SlopeMask, HabitatSuitability, NAIP]"
  by (simp add: layer_toggles_def)

lemma all_overlays: "(UNIV :: overlay set) =
    set [LocalDistricts, PublicLands, Parcels, MTRoads, Trails, NHD, BHS, ElevationBands,
      SlopeMask, HabitatSuitability, NAIP]"
proof -
  have "ov \<in> set [LocalDistricts, PublicLands, Parcels, MTRoads, Trails, NHD, BHS, ElevationBands,
      SlopeMask, HabitatSuitability, NAIP]" for ov
    by (cases ov) simp_all
  then show ?thesis by blast
qed

lemma flag_change:
  assumes "enabled e s" "flag (fire e s) ov \<noteq> flag s ov"
  shows "e = LayerChange ov (\<not> flag s ov) \<and> LayerCheckbox ov \<in> set (sidebar_controls s)"
proof (cases e)
  case (LayerChange ov' b)
  with assms(2) have "ov' = ov" "b \<noteq> flag s ov"
    by (auto simp add: fire_flag simp del: fire.simps split: if_splits)
  with LayerChange assms(1) show ?thesis by auto
qed (insert assms(2), simp_all add: fire_flag del: fire.simps)

lemma year_change:
  assumes "enabled e s" "naipYear (fire e s) \<noteq> naipYear s"
  shows "e = YearChange (naipYear (fire e s)) \<and> naipYear (fire e s) \<in> set naip_years \<and> showNAIP s"
proof (cases e)
  case (YearChange y)
  with assms(1) have "y \<in> set naip_years" "YearSelect \<in> set (sidebar_controls s)"
    by simp_all
  moreover from this(2) have "showNAIP s"
    by (auto simp: sidebar_controls_def split: if_splits)
  ultimately show ?thesis using YearChange by (simp add: fire_naipYear del: fire.simps)
qed (insert assms(2), simp_all add: fire_naipYear del: fire.simps)

lemma measuring_inv_fire: "measuring_inv s \<Longrightarrow> measuring_inv (fire e s)"
  by (cases e) (simp_all add: measuring_inv_def fire_popupInfo fire_isMeasuring del: fire.simps)

lemma reachable_measuring_inv: "reachable s \<Longrightarrow> measuring_inv s"
  by (induction rule: reachable.induct)
     (simp_all add: measuring_inv_fire, simp add: measuring_inv_def initial_state_def)

lemma popup_opened:
  assumes "popupInfo (fire e s) \<noteq> None" "popupInfo (fire e s) \<noteq> popupInfo s"
  shows "(\<exists>ev. e = MapClick ev) \<and> \<not> isMeasuring s"
  using assms
  by (cases e) (simp_all add: fire_popupInfo del: fire.simps split: if_splits)

lemma emptied_only_by_clear:
  assumes "measurementPoints s \<noteq> []" "measurementPoints (fire e s) = []"
  shows "e = ClearClick"
  using assms
  by (cases e) (simp_all add: fire_measurementPoints del: fire.simps split: if_splits)

section \<open>The claims\<close>

text \<open>
  Claim C1. With fewer than two measurement points \<open>totalDistance\<close> is 0; with two or more
  it is \<open>turf.length\<close> of \<open>turf.lineString\<close> of the points, in the selected unit. The
  distance display exists exactly when the list is not empty, and then shows the total
  through \<open>toFixed\<close> with 2 decimals for miles and 0 for yards, followed by the unit
  suffix. The library functions are arbitrary parameters.
\<close>

theorem C1_total_distance:
  "(length (measurementPoints s) < 2 \<longrightarrow> totalDistance lineString turf_length s = 0)
   \<and> (2 \<le> length (measurementPoints s) \<longrightarrow>
        totalDistance lineString turf_length s
          = turf_length (lineString (measurementPoints s)) (measurementUnit s))
   \<and> (distance_display lineString turf_length toFixed s \<noteq> None \<longleftrightarrow> measurementPoints s \<noteq> [])
   \<and> (measurementPoints s \<noteq> [] \<longrightarrow>
        distance_display lineString turf_length toFixed s
          = Some (toFixed (totalDistance lineString turf_length s)
                    (case measurementUnit s of Miles \<Rightarrow> 2 | Yards \<Rightarrow> 0),
                  case measurementUnit s of Miles \<Rightarrow> ''mi'' | Yards \<Rightarrow> ''yd''))"
  by (cases "measurementUnit s") (simp_all add: totalDistance_def distance_display_def)

text \<open>
  The theorem at a one-point and at a two-point path, for a \<open>turf.length\<close> that returns 7.
\<close>

theorem C1_total_distance_witness:
  "length (measurementPoints (initial_state\<lparr>measurementPoints := [[0, 0]]\<rparr>)) < 2
   \<and> totalDistance (\<lambda>pts. pts) (\<lambda>line u. 7) (initial_state\<lparr>measurementPoints := [[0, 0]]\<rparr>) = 0
   \<and> 2 \<le> length (measurementPoints (initial_state\<lparr>measurementPoints := [[0, 0], [0, 1]]\<rparr>))
   \<and> totalDistance (\<lambda>pts. pts) (\<lambda>line u. 7)
        (initial_state\<lparr>measurementPoints := [[0, 0], [0, 1]]\<rparr>) = 7
   \<and> measurementPoints (initial_state\<lparr>measurementPoints := [[0, 0], [0, 1]]\<rparr>) \<noteq> []
   \<and> distance_display (\<lambda>pts. pts) (\<lambda>line u. 7) (\<lambda>x d. if d = 2 then ''7.00'' else ''7'')
        (initial_state\<lparr>measurementPoints := [[0, 0], [0, 1]]\<rparr>) = Some (''7.00'', ''mi'')"
  using
    C1_total_distance [of "initial_state\<lparr>measurementPoints := [[0, 0]]\<rparr>"
      "\<lambda>pts. pts" "\<lambda>line u. 7" "\<lambda>x d. if d = 2 then ''7.00'' else ''7''"]
    C1_total_distance [of "initial_state\<lparr>measurementPoints := [[0, 0], [0, 1]]\<rparr>"
      "\<lambda>pts. pts" "\<lambda>line u. 7" "\<lambda>x d. if d = 2 then ''7.00'' else ''7''"]
  by (simp add: initial_state_def)

text \<open>
  Claim C2. While measurement mode is active, a map click appends \<open>[lng, lat]\<close> of the
  click as the last measurement point, keeps every earlier point at its index, and
  leaves the popup as it was; indeed the point list is the only field that changes.
\<close>

theorem C2_click_while_measuring:
  "isMeasuring s \<Longrightarrow>
     measurementPoints (onClick ev s)
       = measurementPoints s @ [[lng (ev_lngLat ev), lat (ev_lngLat ev)]]
   \<and> last (measurementPoints (onClick ev s)) = [lng (ev_lngLat ev), lat (ev_lngLat ev)]
   \<and> length (measurementPoints (onClick ev s)) = Suc (length (measurementPoints s))
   \<and> (\<forall>i<length (measurementPoints s).
         measurementPoints (onClick ev s) ! i = measurementPoints s ! i)
   \<and> popupInfo (onClick ev s) = popupInfo s
   \<and> onClick ev s
       = s\<lparr>measurementPoints :=
             measurementPoints s @ [[lng (ev_lngLat ev), lat (ev_lngLat ev)]]\<rparr>"
  by (simp add: onClick_def nth_append)

text \<open>A click at (3, 4) while measuring, after one point (1, 2).\<close>

theorem C2_click_while_measuring_witness:
  "isMeasuring (initial_state\<lparr>isMeasuring := True, measurementPoints := [[1, 2]]\<rparr>)
   \<and> measurementPoints
        (onClick \<lparr>ev_features = None, ev_lngLat = \<lparr>lng = 3, lat = 4\<rparr>\<rparr>
           (initial_state\<lparr>isMeasuring := True, measurementPoints := [[1, 2]]\<rparr>))
       = [[1, 2], [3, 4]]
   \<and> popupInfo
        (onClick \<lparr>ev_features = None, ev_lngLat = \<lparr>lng = 3, lat = 4\<rparr>\<rparr>
           (initial_state\<lparr>isMeasuring := True, measurementPoints := [[1, 2]]\<rparr>))
       = None"
proof -
  have m: "isMeasuring (initial_state\<lparr>isMeasuring := True, measurementPoints := [[1, 2]]\<rparr>)"
    by simp
  from C2_click_while_measuring [OF m, of "\<lparr>ev_features = None, ev_lngLat = \<lparr>lng = 3, lat = 4\<rparr>\<rparr>"]
  show ?thesis
    by (simp add: initial_state_def)
qed

text \<open>
  Claim C3, as amended. While measurement mode is inactive, a click that carries at least
  one feature sets the popup to the first feature at the click's coordinates, and the popup
  shows one table row per entry of that feature's properties, in order; when the feature's
  layer is \<open>fs-trails-hit\<close>, the selected-trail name becomes the feature's \<open>Name\<close> if
  that value is truthy and null otherwise (\<open>Name || null\<close>). A click without a feature
  (\<open>features\<close> undefined or empty) clears the popup and the selected-trail name.
\<close>

theorem C3_click_not_measuring:
  "\<not> isMeasuring s \<Longrightarrow>
     (ev_features ev = Some (f # fs) \<longrightarrow>
        popupInfo (onClick ev s) = Some \<lparr>popup_feature = f, popup_lngLat = ev_lngLat ev\<rparr>
      \<and> popup_rows js_String (onClick ev s)
          = Some (map (\<lambda>(key, v). (key, js_String v)) (properties f))
      \<and> (\<forall>rows. popup_rows js_String (onClick ev s) = Some rows \<longrightarrow>
            length rows = length (properties f) \<and> map fst rows = map fst (properties f))
      \<and> (layer_id f = ''fs-trails-hit'' \<longrightarrow>
            selectedTrailName (onClick ev s)
              = (case map_of (properties f) ''Name'' of
                   None \<Rightarrow> None
                 | Some v \<Rightarrow> if truthy v then Some v else None)))
   \<and> (ev_features ev = None \<or> ev_features ev = Some [] \<longrightarrow>
        popupInfo (onClick ev s) = None \<and> selectedTrailName (onClick ev s) = None
      \<and> popup_rows js_String (onClick ev s) = None)"
  by (auto simp: onClick_def first_feature_def popup_rows_def or_null_def
        split: option.split)

text \<open>
  The claim as first written sets the selected-trail name to the feature's \<open>Name\<close>. For a
  trail whose \<open>Name\<close> is the empty string the handler stores null instead.
\<close>

theorem C3_counterexample:
  "\<not> isMeasuring initial_state
   \<and> popupInfo
        (onClick
           \<lparr>ev_features = Some [\<lparr>layer_id = ''fs-trails-hit'', properties = [(''Name'', JStr '''')]\<rparr>],
            ev_lngLat = \<lparr>lng = 0, lat = 0\<rparr>\<rparr>
           initial_state)
       = Some \<lparr>popup_feature = \<lparr>layer_id = ''fs-trails-hit'', properties = [(''Name'', JStr '''')]\<rparr>,
               popup_lngLat = \<lparr>lng = 0, lat = 0\<rparr>\<rparr>
   \<and> map_of (properties \<lparr>layer_id = ''fs-trails-hit'', properties = [(''Name'', JStr '''')]\<rparr>) ''Name''
       = Some (JStr '''')
   \<and> selectedTrailName
        (onClick
           \<lparr>ev_features = Some [\<lparr>layer_id = ''fs-trails-hit'', properties = [(''Name'', JStr '''')]\<rparr>],
            ev_lngLat = \<lparr>lng = 0, lat = 0\<rparr>\<rparr>
           initial_state)
       = None
   \<and> selectedTrailName
        (onClick
           \<lparr>ev_features = Some [\<lparr>layer_id = ''fs-trails-hit'', properties = [(''Name'', JStr '''')]\<rparr>],
            ev_lngLat = \<lparr>lng = 0, lat = 0\<rparr>\<rparr>
           initial_state)
       \<noteq> map_of (properties \<lparr>layer_id = ''fs-trails-hit'', properties = [(''Name'', JStr '''')]\<rparr>)
            ''Name''"
  by (simp add: onClick_def first_feature_def or_null_def initial_state_def)

text \<open>A click on a named trail, and a click on no feature.\<close>

theorem C3_click_not_measuring_witness:
  "\<not> isMeasuring initial_state
   \<and> popupInfo
        (onClick
           \<lparr>ev_features = Some [\<lparr>layer_id = ''fs-trails-hit'',
                                  properties = [(''Name'', JStr ''Ridge''), (''Miles'', JNum 3)]\<rparr>],
            ev_lngLat = \<lparr>lng = 1, lat = 2\<rparr>\<rparr>
           initial_state)
       = Some \<lparr>popup_feature = \<lparr>layer_id = ''fs-trails-hit'',
                                 properties = [(''Name'', JStr ''Ridge''), (''Miles'', JNum 3)]\<rparr>,
               popup_lngLat = \<lparr>lng = 1, lat = 2\<rparr>\<rparr>
   \<and> selectedTrailName
        (onClick
           \<lparr>ev_features = Some [\<lparr>layer_id = ''fs-trails-hit'',
                                  properties = [(''Name'', JStr ''Ridge''), (''Miles'', JNum 3)]\<rparr>],
            ev_lngLat = \<lparr>lng = 1, lat = 2\<rparr>\<rparr>
           initial_state)
       = Some (JStr ''Ridge'')
   \<and> popupInfo (onClick \<lparr>ev_features = Some [], ev_lngLat = \<lparr>lng = 1, lat = 2\<rparr>\<rparr> initial_state)
       = None"
proof -
  have m: "\<not> isMeasuring initial_state"
    by (simp add: initial_state_def)
  from
    C3_click_not_measuring [OF m,
      of "\<lparr>ev_features = Some [\<lparr>layer_id = ''fs-trails-hit'',
                                  properties = [(''Name'', JStr ''Ridge''), (''Miles'', JNum 3)]\<rparr>],
            ev_lngLat = \<lparr>lng = 1, lat = 2\<rparr>\<rparr>"
         "\<lparr>layer_id = ''fs-trails-hit'',
           properties = [(''Name'', JStr ''Ridge''), (''Miles'', JNum 3)]\<rparr>" "[]" "\<lambda>v. ''x''"]
    C3_click_not_measuring [OF m,
      of "\<lparr>ev_features = Some [], ev_lngLat = \<lparr>lng = 1, lat = 2\<rparr>\<rparr>" "\<lparr>layer_id = ''mt-roads-hit'', properties = []\<rparr>" "[]" "\<lambda>v. ''x''"]
  show ?thesis
    using m by simp
qed

text \<open>
  Claim C4. \<open>toggleMapStyle\<close> sends the terrain style to the satellite style and every
  other style to the terrain style; from either of the two styles, toggling twice gives
  the style back; and the styles of the reachable states are exactly those two.
\<close>

theorem C4_basemap_toggle:
  "mapStyle (toggleMapStyle s) =
     (if mapStyle s = STYLE_TERRAIN then STYLE_SATELLITE else STYLE_TERRAIN)
   \<and> (mapStyle s = STYLE_TERRAIN \<or> mapStyle s = STYLE_SATELLITE
        \<longrightarrow> mapStyle (toggleMapStyle (toggleMapStyle s)) = mapStyle s)
   \<and> {mapStyle s' | s'. reachable s'} = {STYLE_TERRAIN, STYLE_SATELLITE}"
proof -
  have one: "mapStyle (toggleMapStyle t) =
     (if mapStyle t = STYLE_TERRAIN then STYLE_SATELLITE else STYLE_TERRAIN)" for t
    by (simp add: toggleMapStyle_def)
  have twice: "mapStyle s = STYLE_TERRAIN \<or> mapStyle s = STYLE_SATELLITE
        \<longrightarrow> mapStyle (toggleMapStyle (toggleMapStyle s)) = mapStyle s"
    using styles_distinct by (auto simp: one)
  have terrain: "reachable initial_state" by (rule reachable.init)
  have "reachable (fire BasemapClick initial_state)"
    by (rule reachable.step [OF reachable.init]) simp
  moreover have "mapStyle (fire BasemapClick initial_state) = STYLE_SATELLITE"
    by (simp add: one initial_state_def)
  ultimately have sat: "\<exists>s'. STYLE_SATELLITE = mapStyle s' \<and> reachable s'" by metis
  have ter: "\<exists>s'. STYLE_TERRAIN = mapStyle s' \<and> reachable s'"
    using terrain by (intro exI [of _ initial_state]) (simp add: initial_state_def)
  have "{mapStyle s' | s'. reachable s'} = {STYLE_TERRAIN, STYLE_SATELLITE}"
    using reachable_mapStyle sat ter by auto
  with one twice show ?thesis by blast
qed

text \<open>Toggling the initial style once and twice.\<close>

theorem C4_basemap_toggle_witness:
  "(mapStyle initial_state = STYLE_TERRAIN \<or> mapStyle initial_state = STYLE_SATELLITE)
   \<and> mapStyle (toggleMapStyle initial_state) = STYLE_SATELLITE
   \<and> mapStyle (toggleMapStyle (toggleMapStyle initial_state)) = mapStyle initial_state"
  using C4_basemap_toggle [of initial_state]
  by (simp add: initial_state_def)

text \<open>
  Claim C5, as amended. Every source and every constant sublayer of an overlay is rendered
  if and only if the style is loaded and the overlay's flag is set and, for habitat
  suitability, the metadata has been fetched; the trail halo is rendered if and only if
  the trails are rendered and a trail name is selected. Every clickable id of an overlay is
  in \<open>interactiveLayerIds\<close> if and only if the overlay's flag is set, and
  \<open>interactiveLayerIds\<close> holds nothing else: two ids for NHD, and for parcels the labels
  layer but never the fill layer. Setting the flag of one overlay changes neither what is
  rendered nor what is clickable of any other overlay.
\<close>

theorem C5_overlay_visibility:
  "(\<forall>sid\<in>set (overlay_sources s ov). sid \<in> set (rendered_sources s) \<longleftrightarrow> render_guard s ov)
   \<and> (\<forall>l\<in>set (overlay_sublayers s ov). l \<in> set (rendered_layers s) \<longleftrightarrow> render_guard s ov)
   \<and> (''fs-trails-halo'' \<in> set (rendered_layers s)
        \<longleftrightarrow> render_guard s Trails \<and> truthy_opt (selectedTrailName s))
   \<and> (\<forall>i\<in>set (overlay_hit_ids ov). i \<in> set (interactiveLayerIds s) \<longleftrightarrow> flag s ov)
   \<and> set (interactiveLayerIds s) = (\<Union>ov\<in>{ov. flag s ov}. set (overlay_hit_ids ov))
   \<and> set (overlay_hit_ids ov) \<subseteq> set (overlay_sublayers s ov)
   \<and> length (overlay_hit_ids NHD) = 2
   \<and> ''parcels'' \<notin> set (interactiveLayerIds s)
   \<and> (ov' \<noteq> ov \<longrightarrow>
        (\<forall>sid\<in>set (overlay_sources s ov').
            sid \<in> set (rendered_sources (set_flag ov b s)) \<longleftrightarrow> sid \<in> set (rendered_sources s))
      \<and> (\<forall>l\<in>set (overlay_sublayers s ov').
            l \<in> set (rendered_layers (set_flag ov b s)) \<longleftrightarrow> l \<in> set (rendered_layers s))
      \<and> (\<forall>i\<in>set (overlay_hit_ids ov').
            i \<in> set (interactiveLayerIds (set_flag ov b s)) \<longleftrightarrow> i \<in> set (interactiveLayerIds s)))"
proof (intro conjI ballI impI)
  show "length (overlay_hit_ids NHD) = 2" by simp
qed (rule sources_iff sublayers_iff halo_iff hit_iff interactive_set hit_ids_sublayers
      parcels_fill_not_interactive sources_independent sublayers_independent hit_independent;
     assumption)+

text \<open>
  The claim as first written renders an overlay whenever its flag is set and the style is
  loaded. After the map has loaded and habitat suitability has been switched on, with the
  metadata not (yet) fetched, the habitat-suitability source is not rendered.
\<close>

theorem C5_counterexample:
  "reachable (fire (LayerChange HabitatSuitability True) (fire MapLoad initial_state))
   \<and> flag (fire (LayerChange HabitatSuitability True) (fire MapLoad initial_state))
        HabitatSuitability
   \<and> isStyleLoaded (fire (LayerChange HabitatSuitability True) (fire MapLoad initial_state))
   \<and> ''habitat-suitability'' \<notin>
        set (rendered_sources (fire (LayerChange HabitatSuitability True) (fire MapLoad initial_state)))"
proof -
  have r1: "reachable (fire MapLoad initial_state)"
    by (rule reachable.step [OF reachable.init]) simp
  have "enabled (LayerChange HabitatSuitability True) (fire MapLoad initial_state)"
    by (simp add: sidebar_controls_def layer_toggles_def onLoad_def initial_state_def)
  with r1 have "reachable (fire (LayerChange HabitatSuitability True) (fire MapLoad initial_state))"
    by (rule reachable.step)
  moreover have "''habitat-suitability'' \<notin>
        set (rendered_sources (fire (LayerChange HabitatSuitability True) (fire MapLoad initial_state)))"
    by (simp add: rendered_sources_def map_children_def onLoad_def initial_state_def)
  ultimately show ?thesis
    by (simp add: onLoad_def initial_state_def)
qed

text \<open>
  After the map has loaded: NHD is rendered and clickable, and switching NHD off leaves the
  trails as they were.
\<close>

theorem C5_overlay_visibility_witness:
  "''nhd-flowlines'' \<in> set (overlay_sources (fire MapLoad initial_state) NHD)
   \<and> ''nhd-flowlines'' \<in> set (rendered_sources (fire MapLoad initial_state))
   \<and> ''nhd-flowline-hit'' \<in> set (overlay_hit_ids NHD)
   \<and> ''nhd-flowline-hit'' \<in> set (interactiveLayerIds (fire MapLoad initial_state))
   \<and> Trails \<noteq> NHD
   \<and> ''fs-trails'' \<in> set (overlay_sources (fire MapLoad initial_state) Trails)
   \<and> (''fs-trails'' \<in> set (rendered_sources (set_flag NHD False (fire MapLoad initial_state)))
        \<longleftrightarrow> ''fs-trails'' \<in> set (rendered_sources (fire MapLoad initial_state)))"
proof -
  note t = C5_overlay_visibility [of "fire MapLoad initial_state" NHD Trails False]
  have m: "''nhd-flowlines'' \<in> set (overlay_sources (fire MapLoad initial_state) NHD)"
    by simp
  have g: "render_guard (fire MapLoad initial_state) NHD"
    by (simp add: render_guard_def onLoad_def initial_state_def)
  have h: "''nhd-flowline-hit'' \<in> set (overlay_hit_ids NHD)"
    by simp
  have f: "flag (fire MapLoad initial_state) NHD"
    by (simp add: onLoad_def initial_state_def)
  have mt: "''fs-trails'' \<in> set (overlay_sources (fire MapLoad initial_state) Trails)"
    by simp
  have d: "Trails \<noteq> NHD"
    by simp
  from t have "\<forall>sid\<in>set (overlay_sources (fire MapLoad initial_state) NHD).
      sid \<in> set (rendered_sources (fire MapLoad initial_state))
        \<longleftrightarrow> render_guard (fire MapLoad initial_state) NHD"
    by (elim conjE)
  from bspec [OF this m] g
  have r: "''nhd-flowlines'' \<in> set (rendered_sources (fire MapLoad initial_state))"
    by (rule iffD2)
  from t have "\<forall>i\<in>set (overlay_hit_ids NHD).
      i \<in> set (interactiveLayerIds (fire MapLoad initial_state))
        \<longleftrightarrow> flag (fire MapLoad initial_state) NHD"
    by (elim conjE)
  from bspec [OF this h] f
  have i: "''nhd-flowline-hit'' \<in> set (interactiveLayerIds (fire MapLoad initial_state))"
    by (rule iffD2)
  from t have "Trails \<noteq> NHD \<longrightarrow>
        (\<forall>sid\<in>set (overlay_sources (fire MapLoad initial_state) Trails).
            sid \<in> set (rendered_sources (set_flag NHD False (fire MapLoad initial_state)))
              \<longleftrightarrow> sid \<in> set (rendered_sources (fire MapLoad initial_state)))
      \<and> (\<forall>l\<in>set (overlay_sublayers (fire MapLoad initial_state) Trails).
            l \<in> set (rendered_layers (set_flag NHD False (fire MapLoad initial_state)))
              \<longleftrightarrow> l \<in> set (rendered_layers (fire MapLoad initial_state)))
      \<and> (\<forall>i\<in>set (overlay_hit_ids Trails).
            i \<in> set (interactiveLayerIds (set_flag NHD False (fire MapLoad initial_state)))
              \<longleftrightarrow> i \<in> set (interactiveLayerIds (fire MapLoad initial_state)))"
    by (elim conjE)
  from mp [OF this d]
  have "\<forall>sid\<in>set (overlay_sources (fire MapLoad initial_state) Trails).
            sid \<in> set (rendered_sources (set_flag NHD False (fire MapLoad initial_state)))
              \<longleftrightarrow> sid \<in> set (rendered_sources (fire MapLoad initial_state))"
    by (rule conjunct1)
  from bspec [OF this mt]
  have k: "''fs-trails'' \<in> set (rendered_sources (set_flag NHD False (fire MapLoad initial_state)))
        \<longleftrightarrow> ''fs-trails'' \<in> set (rendered_sources (fire MapLoad initial_state))" .
  from m r h i d mt k show ?thesis
    by (intro conjI)
qed

text \<open>
  Claim C6. The sidebar has a toggle for each of the eleven overlays (hunting districts,
  public lands, parcels, roads, trails, NHD, bighorn sheep distribution, elevation bands,
  slope mask, habitat suitability, NAIP), each wired to its own flag, and these are all
  the flags there are. The year \<open>select\<close> offers the nine fixed years. A visibility flag
  changes only through the checkbox of its overlay, the NAIP year only through the
  \<open>select\<close> (shown while NAIP is on) and only to one of the nine years, so that the year
  of every reachable state is one of them. Every source the map renders, the measurement
  path apart, belongs to an overlay whose flag is set.
\<close>

theorem C6_toggleable_overlays:
  "map (\<lambda>(sec, label, ov). ov) layer_toggles @ [NAIP] =
     [LocalDistricts, PublicLands, Parcels, MTRoads, Trails, NHD, BHS, ElevationBands,
      SlopeMask, HabitatSuitability, NAIP]
   \<and> set (map (\<lambda>(sec, label, ov). ov) layer_toggles @ [NAIP]) = UNIV
   \<and> distinct (map (\<lambda>(sec, label, ov). ov) layer_toggles @ [NAIP])
   \<and> naip_years =
       [''2023'', ''2021'', ''2019'', ''2017'', ''2015'', ''2013'', ''2011'', ''2009'', ''2005'']
   \<and> (enabled e s \<and> flag (fire e s) ov \<noteq> flag s ov \<longrightarrow>
        e = LayerChange ov (\<not> flag s ov) \<and> LayerCheckbox ov \<in> set (sidebar_controls s))
   \<and> (enabled e s \<and> naipYear (fire e s) \<noteq> naipYear s \<longrightarrow>
        e = YearChange (naipYear (fire e s)) \<and> naipYear (fire e s) \<in> set naip_years
        \<and> showNAIP s)
   \<and> (reachable s \<longrightarrow> naipYear s \<in> set naip_years)
   \<and> (\<forall>sid\<in>set (rendered_sources s).
         sid = ''measurement'' \<or> (\<exists>ov. flag s ov \<and> sid \<in> set (overlay_sources s ov)))"
proof (intro conjI impI ballI)
  show "set (map (\<lambda>(sec, label, ov). ov) layer_toggles @ [NAIP]) = UNIV"
    by (simp only: toggle_overlays all_overlays)
  show "distinct (map (\<lambda>(sec, label, ov). ov) layer_toggles @ [NAIP])"
    by (simp only: toggle_overlays) simp
  show "naip_years =
       [''2023'', ''2021'', ''2019'', ''2017'', ''2015'', ''2013'', ''2011'', ''2009'', ''2005'']"
    by (rule naip_years_def)
qed (rule toggle_overlays | erule conjE, erule (1) flag_change [THEN conjunct1]
     | erule conjE, erule (1) flag_change [THEN conjunct2]
     | erule conjE, erule (1) year_change [THEN conjunct1]
     | erule conjE, erule (1) year_change [THEN conjunct2, THEN conjunct1]
     | erule conjE, erule (1) year_change [THEN conjunct2, THEN conjunct2]
     | erule reachable_naipYear | erule rendered_source_owner)+

text \<open>Switching parcels on, choosing the year 2019, and the roads after the map has loaded.\<close>

theorem C6_toggleable_overlays_witness:
  "enabled (LayerChange Parcels True) initial_state
   \<and> flag (fire (LayerChange Parcels True) initial_state) Parcels \<noteq> flag initial_state Parcels
   \<and> LayerCheckbox Parcels \<in> set (sidebar_controls initial_state)
   \<and> enabled (YearChange ''2019'') (fire (LayerChange NAIP True) initial_state)
   \<and> naipYear (fire (YearChange ''2019'') (fire (LayerChange NAIP True) initial_state))
        \<noteq> naipYear (fire (LayerChange NAIP True) initial_state)
   \<and> naipYear (fire (YearChange ''2019'') (fire (LayerChange NAIP True) initial_state))
        \<in> set naip_years
   \<and> reachable initial_state
   \<and> naipYear initial_state \<in> set naip_years
   \<and> ''mt-roads'' \<in> set (rendered_sources (fire MapLoad initial_state))"
proof -
  have e1: "enabled (LayerChange Parcels True) initial_state"
    by (simp add: sidebar_controls_def layer_toggles_def initial_state_def)
  have c1: "flag (fire (LayerChange Parcels True) initial_state) Parcels \<noteq> flag initial_state Parcels"
    by (simp add: initial_state_def)
  have e2: "enabled (YearChange ''2019'') (fire (LayerChange NAIP True) initial_state)"
    by (simp add: sidebar_controls_def naip_years_def initial_state_def)
  have c2: "naipYear (fire (YearChange ''2019'') (fire (LayerChange NAIP True) initial_state))
        \<noteq> naipYear (fire (LayerChange NAIP True) initial_state)"
    by (simp add: setNaipYear_def initial_state_def)
  have r: "reachable initial_state"
    by (rule reachable.init)
  have m: "''mt-roads'' \<in> set (rendered_sources (fire MapLoad initial_state))"
    by (simp add: rendered_sources_def map_children_def onLoad_def initial_state_def)
  note t1 = C6_toggleable_overlays [of "LayerChange Parcels True" initial_state Parcels]
  note t2 = C6_toggleable_overlays
    [of "YearChange ''2019''" "fire (LayerChange NAIP True) initial_state" NAIP]
  from t1 have "enabled (LayerChange Parcels True) initial_state
      \<and> flag (fire (LayerChange Parcels True) initial_state) Parcels \<noteq> flag initial_state Parcels
    \<longrightarrow> LayerChange Parcels True = LayerChange Parcels (\<not> flag initial_state Parcels)
      \<and> LayerCheckbox Parcels \<in> set (sidebar_controls initial_state)"
    by (elim conjE)
  with e1 c1 have k1: "LayerCheckbox Parcels \<in> set (sidebar_controls initial_state)"
    by blast
  from t2 have "enabled (YearChange ''2019'') (fire (LayerChange NAIP True) initial_state)
      \<and> naipYear (fire (YearChange ''2019'') (fire (LayerChange NAIP True) initial_state))
          \<noteq> naipYear (fire (LayerChange NAIP True) initial_state)
    \<longrightarrow> YearChange ''2019''
          = YearChange (naipYear (fire (YearChange ''2019'') (fire (LayerChange NAIP True) initial_state)))
      \<and> naipYear (fire (YearChange ''2019'') (fire (LayerChange NAIP True) initial_state))
          \<in> set naip_years
      \<and> showNAIP (fire (LayerChange NAIP True) initial_state)"
    by (elim conjE)
  from mp [OF this conjI [OF e2 c2]]
  have k2: "naipYear (fire (YearChange ''2019'') (fire (LayerChange NAIP True) initial_state))
          \<in> set naip_years"
    by (elim conjE)
  from t1 have "reachable initial_state \<longrightarrow> naipYear initial_state \<in> set naip_years"
    by (elim conjE)
  with r have k3: "naipYear initial_state \<in> set naip_years"
    by (rule rev_mp)
  from e1 c1 k1 e2 c2 k2 r k3 m show ?thesis
    by (intro conjI)
qed

text \<open>
  Claim C7. A click on the distance display turns miles into yards and yards into miles;
  doing it twice gives the state back; the unit is always one of the two; the measurement
  points are untouched, the unit being the only field that changes.
\<close>

theorem C7_unit_toggle:
  "measurementUnit (toggleUnit s) = (case measurementUnit s of Miles \<Rightarrow> Yards | Yards \<Rightarrow> Miles)
   \<and> toggleUnit (toggleUnit s) = s
   \<and> (measurementUnit s = Miles \<or> measurementUnit s = Yards)
   \<and> measurementPoints (toggleUnit s) = measurementPoints s
   \<and> toggleUnit s = s\<lparr>measurementUnit := measurementUnit (toggleUnit s)\<rparr>
   \<and> fire DistanceClick s = toggleUnit s"
  by (cases "measurementUnit s") (simp_all add: toggleUnit_def)

text \<open>Toggling the unit once and twice with one measurement point.\<close>

theorem C7_unit_toggle_witness:
  "measurementUnit (toggleUnit (initial_state\<lparr>measurementPoints := [[1, 2]]\<rparr>)) = Yards
   \<and> measurementUnit (toggleUnit (toggleUnit (initial_state\<lparr>measurementPoints := [[1, 2]]\<rparr>)))
       = Miles
   \<and> measurementPoints (toggleUnit (initial_state\<lparr>measurementPoints := [[1, 2]]\<rparr>)) = [[1, 2]]"
  using C7_unit_toggle [of "initial_state\<lparr>measurementPoints := [[1, 2]]\<rparr>"]
  by (simp add: initial_state_def)

text \<open>
  Claim C8. \<open>isMeasuring\<close> implies \<open>popupInfo = null\<close>: this holds initially, every
  handler preserves it, hence it holds in every reachable state. The Measure button, when
  it enters measurement mode, clears the popup; a click handled while measuring leaves the
  popup alone; and the only event that opens or replaces a popup is a map click outside
  measurement mode.
\<close>

theorem C8_measuring_popup_invariant:
  "measuring_inv initial_state
   \<and> (measuring_inv s \<longrightarrow> measuring_inv (fire e s))
   \<and> (reachable s \<longrightarrow> (isMeasuring s \<longrightarrow> popupInfo s = None))
   \<and> (\<not> isMeasuring s \<longrightarrow> isMeasuring (measureClick s) \<and> popupInfo (measureClick s) = None)
   \<and> (isMeasuring s \<longrightarrow> popupInfo (onClick ev s) = popupInfo s)
   \<and> (popupInfo (fire e s) \<noteq> None \<and> popupInfo (fire e s) \<noteq> popupInfo s
        \<longrightarrow> (\<exists>ev'. e = MapClick ev') \<and> \<not> isMeasuring s)"
proof (intro conjI impI)
  show "measuring_inv initial_state"
    by (simp add: measuring_inv_def initial_state_def)
  show "measuring_inv (fire e s)" if "measuring_inv s"
    using that by (rule measuring_inv_fire)
  show "popupInfo s = None" if "reachable s" "isMeasuring s"
    using reachable_measuring_inv [OF that(1)] that(2) by (simp add: measuring_inv_def)
  show "isMeasuring (measureClick s)" if "\<not> isMeasuring s"
    using that by (simp add: measureClick_def)
  show "popupInfo (measureClick s) = None" if "\<not> isMeasuring s"
    using that by (simp add: measureClick_def)
  show "popupInfo (onClick ev s) = popupInfo s" if "isMeasuring s"
    using that by (simp add: onClick_def)
  show "\<exists>ev'. e = MapClick ev'"
    if "popupInfo (fire e s) \<noteq> None \<and> popupInfo (fire e s) \<noteq> popupInfo s"
    using popup_opened [of e s] that by blast
  show "\<not> isMeasuring s"
    if "popupInfo (fire e s) \<noteq> None \<and> popupInfo (fire e s) \<noteq> popupInfo s"
    using popup_opened [of e s] that by blast
qed

text \<open>
  Pressing Measure with a popup open, and the state reached by pressing Measure first.
\<close>

theorem C8_measuring_popup_invariant_witness:
  "measuring_inv (initial_state\<lparr>popupInfo :=
       Some \<lparr>popup_feature = \<lparr>layer_id = ''mt-roads-hit'', properties = []\<rparr>,
             popup_lngLat = \<lparr>lng = 1, lat = 2\<rparr>\<rparr>\<rparr>)
   \<and> measuring_inv (fire MeasureClick (initial_state\<lparr>popupInfo :=
       Some \<lparr>popup_feature = \<lparr>layer_id = ''mt-roads-hit'', properties = []\<rparr>,
             popup_lngLat = \<lparr>lng = 1, lat = 2\<rparr>\<rparr>\<rparr>))
   \<and> \<not> isMeasuring (initial_state\<lparr>popupInfo :=
       Some \<lparr>popup_feature = \<lparr>layer_id = ''mt-roads-hit'', properties = []\<rparr>,
             popup_lngLat = \<lparr>lng = 1, lat = 2\<rparr>\<rparr>\<rparr>)
   \<and> isMeasuring (measureClick (initial_state\<lparr>popupInfo :=
       Some \<lparr>popup_feature = \<lparr>layer_id = ''mt-roads-hit'', properties = []\<rparr>,
             popup_lngLat = \<lparr>lng = 1, lat = 2\<rparr>\<rparr>\<rparr>))
   \<and> popupInfo (measureClick (initial_state\<lparr>popupInfo :=
       Some \<lparr>popup_feature = \<lparr>layer_id = ''mt-roads-hit'', properties = []\<rparr>,
             popup_lngLat = \<lparr>lng = 1, lat = 2\<rparr>\<rparr>\<rparr>)) = None
   \<and> reachable (fire MeasureClick initial_state)
   \<and> isMeasuring (fire MeasureClick initial_state)
   \<and> popupInfo (fire MeasureClick initial_state) = None"
proof -
  let ?p = "initial_state\<lparr>popupInfo :=
       Some \<lparr>popup_feature = \<lparr>layer_id = ''mt-roads-hit'', properties = []\<rparr>,
             popup_lngLat = \<lparr>lng = 1, lat = 2\<rparr>\<rparr>\<rparr>"
  note t1 = C8_measuring_popup_invariant [of ?p MeasureClick
      "\<lparr>ev_features = None, ev_lngLat = \<lparr>lng = 1, lat = 2\<rparr>\<rparr>"]
  note t2 = C8_measuring_popup_invariant [of "fire MeasureClick initial_state" MeasureClick
      "\<lparr>ev_features = None, ev_lngLat = \<lparr>lng = 1, lat = 2\<rparr>\<rparr>"]
  have i: "measuring_inv ?p"
    by (simp add: measuring_inv_def initial_state_def)
  have n: "\<not> isMeasuring ?p"
    by (simp add: initial_state_def)
  have r: "reachable (fire MeasureClick initial_state)"
    by (rule reachable.step [OF reachable.init]) simp
  have m: "isMeasuring (fire MeasureClick initial_state)"
    by (simp add: measureClick_def initial_state_def)
  from t1 have "measuring_inv ?p \<longrightarrow> measuring_inv (fire MeasureClick ?p)"
    by (elim conjE)
  with i have a: "measuring_inv (fire MeasureClick ?p)"
    by (rule rev_mp)
  from t1 have "\<not> isMeasuring ?p \<longrightarrow> isMeasuring (measureClick ?p) \<and> popupInfo (measureClick ?p) = None"
    by (elim conjE)
  with n have b: "isMeasuring (measureClick ?p) \<and> popupInfo (measureClick ?p) = None"
    by (rule rev_mp)
  from t2 have "reachable (fire MeasureClick initial_state) \<longrightarrow>
      (isMeasuring (fire MeasureClick initial_state) \<longrightarrow> popupInfo (fire MeasureClick initial_state) = None)"
    by (elim conjE)
  with r m have c: "popupInfo (fire MeasureClick initial_state) = None"
    by blast
  from i a n b r m c show ?thesis
    by (intro conjI) (erule conjunct1 conjunct2 | assumption)+
qed

text \<open>
  Claim C9. The Clear button empties the measurement-point list and changes no other
  field: the unit, the measuring flag, the popup, the basemap style, the layer flags and
  the NAIP year are as before. Leaving measurement mode keeps the points, and the only
  event that makes a non-empty list empty is the Clear button.
\<close>

theorem C9_clear_frame:
  "clearMeasurements s = s\<lparr>measurementPoints := []\<rparr>
   \<and> measurementPoints (clearMeasurements s) = []
   \<and> measurementUnit (clearMeasurements s) = measurementUnit s
   \<and> isMeasuring (clearMeasurements s) = isMeasuring s
   \<and> popupInfo (clearMeasurements s) = popupInfo s
   \<and> mapStyle (clearMeasurements s) = mapStyle s
   \<and> flag (clearMeasurements s) ov = flag s ov
   \<and> naipYear (clearMeasurements s) = naipYear s
   \<and> fire ClearClick s = clearMeasurements s
   \<and> (isMeasuring s \<longrightarrow>
        \<not> isMeasuring (measureClick s)
        \<and> measurementPoints (measureClick s) = measurementPoints s)
   \<and> (measurementPoints s \<noteq> [] \<and> measurementPoints (fire e s) = [] \<longrightarrow> e = ClearClick)"
proof -
  have "flag (clearMeasurements s) ov = flag s ov"
    by (cases ov) (simp_all add: clearMeasurements_def)
  moreover have "measurementPoints s \<noteq> [] \<and> measurementPoints (fire e s) = [] \<longrightarrow> e = ClearClick"
    using emptied_only_by_clear by blast
  ultimately show ?thesis
    by (simp add: clearMeasurements_def measureClick_def)
qed

text \<open>One measured point: cleared by Clear, kept by leaving measurement mode.\<close>

theorem C9_clear_frame_witness:
  "measurementPoints
     (clearMeasurements (initial_state\<lparr>isMeasuring := True, measurementPoints := [[1, 2]]\<rparr>)) = []
   \<and> isMeasuring (initial_state\<lparr>isMeasuring := True, measurementPoints := [[1, 2]]\<rparr>)
   \<and> \<not> isMeasuring
        (measureClick (initial_state\<lparr>isMeasuring := True, measurementPoints := [[1, 2]]\<rparr>))
   \<and> measurementPoints
        (measureClick (initial_state\<lparr>isMeasuring := True, measurementPoints := [[1, 2]]\<rparr>))
       = [[1, 2]]
   \<and> measurementPoints (initial_state\<lparr>isMeasuring := True, measurementPoints := [[1, 2]]\<rparr>) \<noteq> []
   \<and> measurementPoints
        (fire ClearClick (initial_state\<lparr>isMeasuring := True, measurementPoints := [[1, 2]]\<rparr>)) = []"
  using C9_clear_frame
    [of "initial_state\<lparr>isMeasuring := True, measurementPoints := [[1, 2]]\<rparr>" LocalDistricts ClearClick]
  by (simp add: initial_state_def)

text \<open>
  Claim C10. Initially the flags of hunting districts, NHD, roads, trails and public lands
  are set and those of parcels, NAIP, bighorn sheep distribution, elevation bands, slope
  mask and habitat suitability are not; the NAIP year is 2023, the basemap is the
  terrain style, measurement mode is off, there is no measurement point, the unit is miles
  and no popup is open.
\<close>

theorem C10_initial_state:
  "{ov. flag initial_state ov} = {LocalDistricts, NHD, MTRoads, Trails, PublicLands}
   \<and> {ov. \<not> flag initial_state ov} =
       {Parcels, NAIP, BHS, ElevationBands, SlopeMask, HabitatSuitability}
   \<and> naipYear initial_state = ''2023''
   \<and> mapStyle initial_state = STYLE_TERRAIN
   \<and> \<not> isMeasuring initial_state
   \<and> measurementPoints initial_state = []
   \<and> measurementUnit initial_state = Miles
   \<and> popupInfo initial_state = None"
proof -
  have "flag initial_state ov \<longleftrightarrow> ov \<in> {LocalDistricts, NHD, MTRoads, Trails, PublicLands}" for ov
    by (cases ov) (simp_all add: initial_state_def)
  moreover have "UNIV = {LocalDistricts, NHD, MTRoads, Trails, PublicLands,
      Parcels, NAIP, BHS, ElevationBands, SlopeMask, HabitatSuitability}"
    using overlay.exhaust by blast
  ultimately have "{ov. flag initial_state ov} = {LocalDistricts, NHD, MTRoads, Trails, PublicLands}"
    and "{ov. \<not> flag initial_state ov} =
       {Parcels, NAIP, BHS, ElevationBands, SlopeMask, HabitatSuitability}"
    by auto
  then show ?thesis by (simp add: initial_state_def)
qed

end
